theory Spec2Isabelle
  imports Main
begin

section \<open>Tabular data\<close>

text \<open>
  A pandas DataFrame is an ordered sequence of labelled columns over a common row index.
  A column carries its dtype: a numeric column (int64/float64, a missing value is NaN) or
  an object column of strings (a missing value is None). Numbers are unbounded integers;
  strings are lists of characters. Labels may repeat, as pandas allows.
\<close>

datatype column = NumCol "int option list" | StrCol "string option list"

fun col_len :: "column \<Rightarrow> nat" where
  "col_len (NumCol xs) = length xs"
| "col_len (StrCol xs) = length xs"

record dataframe =
  cols :: "(string \<times> column) list"
  nrows :: nat

definition names :: "dataframe \<Rightarrow> string list" where
  "names d = map fst (cols d)"

definition columns_data :: "dataframe \<Rightarrow> column list" where
  "columns_data d = map snd (cols d)"

text \<open>Every column of a frame has one value per row of the index.\<close>

definition wf_df :: "dataframe \<Rightarrow> bool" where
  "wf_df d = list_all (\<lambda>nc. col_len (snd nc) = nrows d) (cols d)"

text \<open>\<^verbatim>\<open>df.empty\<close>: true when either axis has length 0.\<close>

definition empty_df :: "dataframe \<Rightarrow> bool" where
  "empty_df d = (nrows d = 0 \<or> cols d = [])"

text \<open>The column stored under a label (the first one, should the label repeat).\<close>

definition column_of :: "dataframe \<Rightarrow> string \<Rightarrow> column option" where
  "column_of d c = map_of (cols d) c"

section \<open>Errors\<close>

datatype error =
    ValueError
  | KeyError string
  | TypeError
  | AttributeError
  | IndexError
  | MergeError
  | ImportError
  | UnboundLocalError
  | EmptyDataError
  | OtherError string

section \<open>The pandas operations the pipeline calls\<close>

text \<open>
  pandas is a library the repository imports; each operation the source calls is given
  here with the behaviour pandas documents for the default arguments, which are the ones
  the source uses.

  \<^verbatim>\<open>df.rename(columns=m)\<close>: every label that is a key of \<open>m\<close> is replaced by its image;
  a key of \<open>m\<close> that labels no column is ignored (\<^verbatim>\<open>errors='ignore'\<close> is the default).
  The data is untouched.
\<close>

definition rename_label :: "(string \<rightharpoonup> string) \<Rightarrow> string \<Rightarrow> string" where
  "rename_label m n = (case m n of Some n' \<Rightarrow> n' | None \<Rightarrow> n)"

definition rename_df :: "(string \<rightharpoonup> string) \<Rightarrow> dataframe \<Rightarrow> dataframe" where
  "rename_df m d = d\<lparr>cols := map (\<lambda>nc. (rename_label m (fst nc), snd nc)) (cols d)\<rparr>"

section \<open>The processor\<close>

datatype db_engine = Engine string

record processor =
  db_path :: string
  sql_query :: string
  columns_to_rename :: "(string \<times> string) list"
  values_to_rename :: "string \<rightharpoonup> string"
  weather_map_data :: string
  df :: "dataframe option"
  engine :: "db_engine option"

record config_params =
  cfg_db_path :: string
  cfg_sql_query :: string
  cfg_columns_to_rename :: "(string \<times> string) list"
  cfg_values_to_rename :: "string \<rightharpoonup> string"
  cfg_weather_mapping_csv :: string

text \<open>\<^verbatim>\<open>__init__\<close>: the configuration is copied; the frame and the engine start as None.\<close>

definition init_processor :: "config_params \<Rightarrow> processor" where
  "init_processor cfg =
     \<lparr>db_path = cfg_db_path cfg, sql_query = cfg_sql_query cfg,
      columns_to_rename = cfg_columns_to_rename cfg,
      values_to_rename = cfg_values_to_rename cfg,
      weather_map_data = cfg_weather_mapping_csv cfg,
      df = None, engine = None\<rparr>"

text \<open>
  A method either returns a value or raises; in both cases the processor it leaves behind
  is part of the result, since an exception does not undo earlier assignments.
\<close>

type_synonym 'a outcome = "(error + 'a) \<times> processor"

subsection \<open>rename_columns\<close>

text \<open>
  The loop \<^verbatim>\<open>while temp_name in self.df.columns: temp_name += "_"\<close>. Each round makes the
  candidate one character longer, so it leaves behind the labels that are shorter.
\<close>

function temp_name_from :: "string \<Rightarrow> string list \<Rightarrow> string" where
  "temp_name_from t cs = (if t \<in> set cs then temp_name_from (t @ ''_'') cs else t)"
  by pat_completeness auto
termination
proof (relation "measure (\<lambda>(t, cs). length (filter (\<lambda>c. length t \<le> length c) cs))")
  show "wf (measure (\<lambda>(t, cs). length (filter (\<lambda>c. length t \<le> length c) cs)))"
    by simp
next
  fix t :: string and cs :: "string list"
  assume mem: "t \<in> set cs"
  let ?Q = "\<lambda>c::string. length t \<le> length c"
  let ?P = "\<lambda>c::string. length (t @ ''_'') \<le> length c"
  have sub: "filter ?P cs = filter ?P (filter ?Q cs)"
    by (induction cs) auto
  have "t \<in> set (filter ?Q cs)" using mem by simp
  moreover have "\<not> ?P t" by simp
  ultimately have "length (filter ?P (filter ?Q cs)) < length (filter ?Q cs)"
    by (rule length_filter_less)
  then show "((t @ ''_'', cs), (t, cs))
      \<in> measure (\<lambda>(t, cs). length (filter (\<lambda>c. length t \<le> length c) cs))"
    using sub by simp
qed

declare temp_name_from.simps [simp del]

definition temp_name :: "string list \<Rightarrow> string" where
  "temp_name cs = temp_name_from ''__temp_name_for_swap__'' cs"

text \<open>
  \<^verbatim>\<open>column1, column2 = list(d.keys())[0], list(d.values())[0]\<close> raises IndexError on an
  empty dict; \<^verbatim>\<open>self.df.columns\<close> raises AttributeError while the frame is None. The dict
  literal \<^verbatim>\<open>{column1: temp_name, column2: column1}\<close> keeps the later entry when the two keys
  are equal, as the map update does.
\<close>

definition rename_columns :: "processor \<Rightarrow> unit outcome" where
  "rename_columns p =
     (case columns_to_rename p of
        [] \<Rightarrow> (Inl IndexError, p)
      | (column1, column2) # _ \<Rightarrow>
          (case df p of
             None \<Rightarrow> (Inl AttributeError, p)
           | Some d \<Rightarrow>
               (let tmp = temp_name (names d);
                    d1 = rename_df (Map.empty(column1 \<mapsto> tmp, column2 \<mapsto> column1)) d;
                    d2 = rename_df (Map.empty(tmp \<mapsto> column2)) d1
                in (Inr (), p\<lparr>df := Some d2\<rparr>))))"

subsection \<open>apply_corrections\<close>

text \<open>
  \<^verbatim>\<open>df[c]\<close> raises KeyError when no column is labelled \<open>c\<close>. \<^verbatim>\<open>df[c] = v\<close> replaces the
  data under an existing label in place and appends a new column otherwise. This is item
  access on a frame whose labels are distinct; under a repeated label pandas hands out a
  sub-frame instead of a column, and the statements about apply_corrections below are
  made for frames with distinct labels.
\<close>

definition getitem :: "dataframe \<Rightarrow> string \<Rightarrow> error + column" where
  "getitem d c = (case column_of d c of None \<Rightarrow> Inl (KeyError c) | Some col \<Rightarrow> Inr col)"

definition setitem :: "dataframe \<Rightarrow> string \<Rightarrow> column \<Rightarrow> dataframe" where
  "setitem d c v =
     (if c \<in> set (names d)
      then d\<lparr>cols := map (\<lambda>nc. if fst nc = c then (c, v) else nc) (cols d)\<rparr>
      else d\<lparr>cols := cols d @ [(c, v)]\<rparr>)"

text \<open>
  \<^verbatim>\<open>Series.abs()\<close>: elementwise on a numeric column, NaN stays NaN; on an object column
  Python's \<^verbatim>\<open>abs\<close> raises TypeError at the first element.
\<close>

fun series_abs :: "column \<Rightarrow> error + column" where
  "series_abs (NumCol xs) = Inr (NumCol (map (map_option abs) xs))"
| "series_abs (StrCol xs) = (if xs = [] then Inr (StrCol []) else Inl TypeError)"

text \<open>\<^verbatim>\<open>d.get(crop, crop)\<close> on the table of strings: the image on a hit, the argument on a miss.\<close>

definition dict_get :: "(string \<rightharpoonup> string) \<Rightarrow> string \<Rightarrow> string" where
  "dict_get tbl s = (case tbl s of Some s' \<Rightarrow> s' | None \<Rightarrow> s)"

text \<open>
  \<^verbatim>\<open>Series.apply(lambda crop: d.get(crop, crop))\<close>: a number, NaN or None is never a key
  of a table whose keys are strings, so only strings can change.
\<close>

fun series_apply_get :: "(string \<rightharpoonup> string) \<Rightarrow> column \<Rightarrow> column" where
  "series_apply_get tbl (NumCol xs) = NumCol xs"
| "series_apply_get tbl (StrCol xs) = StrCol (map (map_option (dict_get tbl)) xs)"

text \<open>
  Python's \<^verbatim>\<open>str.strip()\<close> without argument removes leading and trailing whitespace; among
  the ASCII characters these are the codes 9 to 13, 28 to 31 and 32.
\<close>

definition isspace :: "char \<Rightarrow> bool" where
  "isspace c = (let k = (of_char c :: nat) in (9 \<le> k \<and> k \<le> 13) \<or> (28 \<le> k \<and> k \<le> 31) \<or> k = 32)"

definition strip :: "string \<Rightarrow> string" where
  "strip s = rev (dropWhile isspace (rev (dropWhile isspace s)))"

text \<open>
  \<^verbatim>\<open>Series.str.strip()\<close>: the \<^verbatim>\<open>.str\<close> accessor raises AttributeError on a numeric column;
  on an object column every string is stripped and a missing value stays missing.
\<close>

fun str_strip :: "column \<Rightarrow> error + column" where
  "str_strip (NumCol xs) = Inl AttributeError"
| "str_strip (StrCol xs) = Inr (StrCol (map (map_option strip) xs))"

text \<open>
  The three statements of apply_corrections, in order. Subscripting None raises TypeError.
  The frame is updated in place, so an exception in a later statement leaves the earlier
  assignments in the processor.
\<close>

definition apply_corrections :: "processor \<Rightarrow> string \<Rightarrow> string \<Rightarrow> unit outcome" where
  "apply_corrections p column_name abs_column =
     (case df p of
        None \<Rightarrow> (Inl TypeError, p)
      | Some d \<Rightarrow>
          (case getitem d abs_column of
             Inl e \<Rightarrow> (Inl e, p)
           | Inr a \<Rightarrow>
               (case series_abs a of
                  Inl e \<Rightarrow> (Inl e, p)
                | Inr a' \<Rightarrow>
                    (let d1 = setitem d abs_column a' in
                     case getitem d1 column_name of
                       Inl e \<Rightarrow> (Inl e, p\<lparr>df := Some d1\<rparr>)
                     | Inr v \<Rightarrow>
                         (let d2 = setitem d1 column_name (series_apply_get (values_to_rename p) v) in
                          case getitem d2 column_name of
                            Inl e \<Rightarrow> (Inl e, p\<lparr>df := Some d2\<rparr>)
                          | Inr v' \<Rightarrow>
                              (case str_strip v' of
                                 Inl e \<Rightarrow> (Inl e, p\<lparr>df := Some d2\<rparr>)
                               | Inr v'' \<Rightarrow>
                                   (Inr (), p\<lparr>df := Some (setitem d2 column_name v'')\<rparr>)))))))"

subsection \<open>The outside world: database and web\<close>

text \<open>
  What SQLAlchemy and pandas answer for a path, a query or a URL is a parameter: each call
  returns a value or raises.
\<close>

record world =
  sa_create_engine :: "string \<Rightarrow> error + db_engine"
  engine_connect :: "db_engine \<Rightarrow> error option"
  read_sql_query :: "db_engine \<Rightarrow> string \<Rightarrow> error + dataframe"
  read_csv :: "string \<Rightarrow> error + dataframe"

text \<open>
  create_db_engine: both handlers end in \<^verbatim>\<open>raise e\<close>; in the ImportError handler \<open>e\<close>
  is not bound, so that statement raises UnboundLocalError.
\<close>

definition reraise_engine_error :: "error \<Rightarrow> error" where
  "reraise_engine_error e = (if e = ImportError then UnboundLocalError else e)"

definition create_db_engine :: "world \<Rightarrow> string \<Rightarrow> error + db_engine" where
  "create_db_engine w path =
     (case sa_create_engine w path of
        Inl e \<Rightarrow> Inl (reraise_engine_error e)
      | Inr eng \<Rightarrow>
          (case engine_connect w eng of
             Some e \<Rightarrow> Inl (reraise_engine_error e)
           | None \<Rightarrow> Inr eng))"

text \<open>query_data: an empty frame raises ValueError; both handlers re-raise what they caught.\<close>

definition query_data :: "world \<Rightarrow> db_engine \<Rightarrow> string \<Rightarrow> error + dataframe" where
  "query_data w eng q =
     (case read_sql_query w eng q of
        Inl e \<Rightarrow> Inl e
      | Inr d \<Rightarrow> if empty_df d then Inl ValueError else Inr d)"

definition read_from_web_CSV :: "world \<Rightarrow> string \<Rightarrow> error + dataframe" where
  "read_from_web_CSV w url = (case read_csv w url of Inl e \<Rightarrow> Inl e | Inr d \<Rightarrow> Inr d)"

subsection \<open>ingest_sql_data\<close>

text \<open>The try block: the frame is assigned only when query_data returns.\<close>

definition load_data :: "world \<Rightarrow> db_engine \<Rightarrow> processor \<Rightarrow> dataframe outcome" where
  "load_data w eng p =
     (case query_data w eng (sql_query p) of
        Inl e \<Rightarrow> (Inl e, p)
      | Inr d \<Rightarrow> (Inr d, p\<lparr>df := Some d\<rparr>))"

definition ingest_sql_data :: "world \<Rightarrow> processor \<Rightarrow> dataframe outcome" where
  "ingest_sql_data w p =
     (case engine p of
        None \<Rightarrow>
          (case create_db_engine w (db_path p) of
             Inl e \<Rightarrow> (Inl e, p)
           | Inr eng \<Rightarrow> load_data w eng (p\<lparr>engine := Some eng\<rparr>))
      | Some eng \<Rightarrow> load_data w eng p)"

subsection \<open>weather_station_mapping\<close>

datatype cell = Num "int option" | Str "string option"

text \<open>Reading row \<open>i\<close> of a column; every row of a well-formed frame is in range.\<close>

fun cell_at :: "column \<Rightarrow> nat \<Rightarrow> cell" where
  "cell_at (NumCol xs) i = Num (if i < length xs then xs ! i else None)"
| "cell_at (StrCol xs) i = Str (if i < length xs then xs ! i else None)"

fun take_rows :: "column \<Rightarrow> nat list \<Rightarrow> column" where
  "take_rows (NumCol xs) idx = NumCol (map (\<lambda>i. if i < length xs then xs ! i else None) idx)"
| "take_rows (StrCol xs) idx = StrCol (map (\<lambda>i. if i < length xs then xs ! i else None) idx)"

fun is_numeric :: "column \<Rightarrow> bool" where
  "is_numeric (NumCol xs) = True"
| "is_numeric (StrCol xs) = False"

text \<open>The values of row \<open>i\<close> under the labels \<open>cs\<close>.\<close>

definition key_at :: "dataframe \<Rightarrow> string list \<Rightarrow> nat \<Rightarrow> cell option list" where
  "key_at d cs i = map (\<lambda>c. map_option (\<lambda>col. cell_at col i) (column_of d c)) cs"

text \<open>The labels that occur in both frames.\<close>

definition common_columns :: "dataframe \<Rightarrow> dataframe \<Rightarrow> string list" where
  "common_columns l r = remdups (filter (\<lambda>c. c \<in> set (names r)) (names l))"

text \<open>
  When both frames have rows, pandas refuses to join a numeric key column with an object
  one and raises ValueError.
\<close>

definition dtype_clash :: "dataframe \<Rightarrow> dataframe \<Rightarrow> string list \<Rightarrow> bool" where
  "dtype_clash l r cs =
     (0 < nrows l \<and> 0 < nrows r \<and>
      list_ex (\<lambda>c. case (column_of l c, column_of r c) of
                     (Some a, Some b) \<Rightarrow> is_numeric a \<noteq> is_numeric b
                   | _ \<Rightarrow> False) cs)"

text \<open>
  The pairs (row of the left frame, row of the right frame) that agree on every common
  column, in the order of the left rows. Missing values match each other, as in pandas.
\<close>

definition matching_rows :: "dataframe \<Rightarrow> dataframe \<Rightarrow> string list \<Rightarrow> nat \<Rightarrow> nat list" where
  "matching_rows l r cs i = filter (\<lambda>j. key_at l cs i = key_at r cs j) [0..<nrows r]"

definition join_pairs :: "dataframe \<Rightarrow> dataframe \<Rightarrow> string list \<Rightarrow> (nat \<times> nat) list" where
  "join_pairs l r cs = concat (map (\<lambda>i. map (Pair i) (matching_rows l r cs i)) [0..<nrows l])"

text \<open>
  \<^verbatim>\<open>left.merge(right)\<close> with the defaults: an inner join on all common labels. It raises
  MergeError when there is no common label or a common label repeats within a frame. The
  result has the columns of the left frame followed by the other columns of the right one.
\<close>

definition merge_df :: "dataframe \<Rightarrow> dataframe \<Rightarrow> error + dataframe" where
  "merge_df l r =
     (let cs = common_columns l r in
      if cs = [] then Inl MergeError
      else if \<not> distinct (filter (\<lambda>c. c \<in> set cs) (names l))
              \<or> \<not> distinct (filter (\<lambda>c. c \<in> set cs) (names r)) then Inl MergeError
      else if dtype_clash l r cs then Inl ValueError
      else
        (let ps = join_pairs l r cs in
         Inr \<lparr>cols = map (\<lambda>nc. (fst nc, take_rows (snd nc) (map fst ps))) (cols l)
                    @ map (\<lambda>nc. (fst nc, take_rows (snd nc) (map snd ps)))
                        (filter (\<lambda>nc. fst nc \<notin> set cs) (cols r)),
              nrows = length ps\<rparr>))"

text \<open>
  \<^verbatim>\<open>self.df.merge\<close> is looked up before the argument is evaluated, so a processor without
  a frame raises AttributeError before the CSV is fetched.
\<close>

definition weather_station_mapping :: "world \<Rightarrow> processor \<Rightarrow> dataframe outcome" where
  "weather_station_mapping w p =
     (case df p of
        None \<Rightarrow> (Inl AttributeError, p)
      | Some d \<Rightarrow>
          (case read_from_web_CSV w (weather_map_data p) of
             Inl e \<Rightarrow> (Inl e, p)
           | Inr m \<Rightarrow>
               (case merge_df d m of
                  Inl e \<Rightarrow> (Inl e, p)
                | Inr d' \<Rightarrow> (Inr d', p\<lparr>df := Some d'\<rparr>))))"

subsection \<open>process\<close>

text \<open>\<^verbatim>\<open>df.drop(columns=c)\<close> raises KeyError when no column is labelled \<open>c\<close>.\<close>

definition drop_columns :: "dataframe \<Rightarrow> string \<Rightarrow> error + dataframe" where
  "drop_columns d c =
     (if c \<in> set (names d) then Inr (d\<lparr>cols := filter (\<lambda>nc. fst nc \<noteq> c) (cols d)\<rparr>)
      else Inl (KeyError c))"

text \<open>Sequencing two statements: an exception in the first skips the second.\<close>

definition and_then :: "'a outcome \<Rightarrow> ('a \<Rightarrow> processor \<Rightarrow> 'b outcome) \<Rightarrow> 'b outcome" where
  "and_then r f = (case r of (Inl e, p) \<Rightarrow> (Inl e, p) | (Inr x, p) \<Rightarrow> f x p)"

text \<open>The last assignment of process: \<^verbatim>\<open>self.df = self.df.drop(columns="Unnamed: 0")\<close>.\<close>

definition drop_artifact :: "processor \<Rightarrow> unit outcome" where
  "drop_artifact p =
     (case df p of
        None \<Rightarrow> (Inl AttributeError, p)
      | Some d \<Rightarrow>
          (case drop_columns d ''Unnamed: 0'' of
             Inl e \<Rightarrow> (Inl e, p)
           | Inr d' \<Rightarrow> (Inr (), p\<lparr>df := Some d'\<rparr>)))"

text \<open>The four method calls of process, up to and including the join.\<close>

definition process_steps :: "world \<Rightarrow> processor \<Rightarrow> dataframe outcome" where
  "process_steps w p =
     and_then (ingest_sql_data w p) (\<lambda>_ p1.
     and_then (rename_columns p1) (\<lambda>_ p2.
     and_then (apply_corrections p2 ''Crop_type'' ''Elevation'') (\<lambda>_ p3.
     weather_station_mapping w p3)))"

definition process :: "world \<Rightarrow> processor \<Rightarrow> unit outcome" where
  "process w p = and_then (process_steps w p) (\<lambda>_ p4. drop_artifact p4)"

text \<open>Exchanging two labels.\<close>

definition swap_label :: "string \<Rightarrow> string \<Rightarrow> string \<Rightarrow> string" where
  "swap_label a b c = (if c = a then b else if c = b then a else c)"

section \<open>Example data\<close>

definition plots_frame :: dataframe where
  "plots_frame =
     \<lparr>cols = [(''Field_ID'', NumCol [Some 1, Some 2]),
              (''Plot_ID'', NumCol [Some 7, Some 8]),
              (''Elevation'', NumCol [Some (- 430), Some 12])],
      nrows = 2\<rparr>"

definition fields_frame :: dataframe where
  "fields_frame =
     \<lparr>cols = [(''Field_ID'', NumCol [Some 1, Some 2]),
              (''Elevation'', NumCol [Some (- 430), Some 12])],
      nrows = 2\<rparr>"

definition survey_processor :: "dataframe option \<Rightarrow> processor" where
  "survey_processor d =
     \<lparr>db_path = ''sqlite:///survey.db'', sql_query = ''SELECT * FROM fields'',
      columns_to_rename = [(''Field_ID'', ''Plot_ID'')],
      values_to_rename = [''cassaval'' \<mapsto> ''cassava''],
      weather_map_data = ''https://example.org/mapping.csv'',
      df = d, engine = None\<rparr>"

definition cassava_row :: dataframe where
  "cassava_row =
     \<lparr>cols = [(''Field_ID'', NumCol [Some 1]),
              (''Elevation'', NumCol [Some (- 430)]),
              (''Crop_type'', StrCol [Some '' cassaval ''])],
      nrows = 1\<rparr>"

definition crops_frame :: dataframe where
  "crops_frame =
     \<lparr>cols = [(''Field_ID'', NumCol [Some 1, Some 2, Some 3]),
              (''Elevation'', NumCol [Some (- 430), Some 12, None]),
              (''Crop_type'', StrCol [Some ''cassaval'', Some '' tea '', None])],
      nrows = 3\<rparr>"

definition survey_world :: "dataframe \<Rightarrow> dataframe \<Rightarrow> world" where
  "survey_world q m =
     \<lparr>sa_create_engine = (\<lambda>path. Inr (Engine path)),
      engine_connect = (\<lambda>eng. None),
      read_sql_query = (\<lambda>eng query. Inr q),
      read_csv = (\<lambda>url. Inr m)\<rparr>"

definition survey_config :: config_params where
  "survey_config =
     \<lparr>cfg_db_path = ''sqlite:///survey.db'', cfg_sql_query = ''SELECT * FROM fields'',
      cfg_columns_to_rename = [(''Annual_yield'', ''Crop_type''), (''Crop_type'', ''Annual_yield'')],
      cfg_values_to_rename = [''cassaval'' \<mapsto> ''cassava''],
      cfg_weather_mapping_csv = ''https://example.org/mapping.csv''\<rparr>"

definition no_rows_frame :: dataframe where
  "no_rows_frame =
     \<lparr>cols = [(''Field_ID'', NumCol []), (''Elevation'', NumCol [])], nrows = 0\<rparr>"

definition yield_frame :: dataframe where
  "yield_frame =
     \<lparr>cols = [(''Field_ID'', NumCol [Some 1, Some 2]),
              (''Elevation'', NumCol [Some (- 430), Some 12]),
              (''Annual_yield'', StrCol [Some ''cassaval'', Some ''tea '']),
              (''Crop_type'', NumCol [Some 3, Some 5])],
      nrows = 2\<rparr>"

definition station_frame :: dataframe where
  "station_frame =
     \<lparr>cols = [(''Unnamed: 0'', NumCol [Some 0, Some 1]),
              (''Field_ID'', NumCol [Some 1, Some 2]),
              (''Weather_station'', NumCol [Some 4, Some 0])],
      nrows = 2\<rparr>"

definition station_frame_plain :: dataframe where
  "station_frame_plain =
     \<lparr>cols = [(''Field_ID'', NumCol [Some 1, Some 2]),
              (''Weather_station'', NumCol [Some 4, Some 0])],
      nrows = 2\<rparr>"

definition joined_frame :: dataframe where
  "joined_frame =
     \<lparr>cols = [(''Field_ID'', NumCol [Some 1, Some 2]),
              (''Elevation'', NumCol [Some 430, Some 12]),
              (''Crop_type'', StrCol [Some ''cassava'', Some ''tea'']),
              (''Annual_yield'', NumCol [Some 3, Some 5]),
              (''Unnamed: 0'', NumCol [Some 0, Some 1]),
              (''Weather_station'', NumCol [Some 4, Some 0])],
      nrows = 2\<rparr>"

definition joined_frame_plain :: dataframe where
  "joined_frame_plain =
     \<lparr>cols = [(''Field_ID'', NumCol [Some 1, Some 2]),
              (''Elevation'', NumCol [Some 430, Some 12]),
              (''Crop_type'', StrCol [Some ''cassava'', Some ''tea'']),
              (''Annual_yield'', NumCol [Some 3, Some 5]),
              (''Weather_station'', NumCol [Some 4, Some 0])],
      nrows = 2\<rparr>"






section \<open>Properties of rename_columns\<close>

lemma temp_name_from_fresh: "temp_name_from t cs \<notin> set cs"
proof (induction t cs rule: temp_name_from.induct)
  case (1 t cs)
  show ?case
  proof (cases "t \<in> set cs")
    case True
    with "1" show ?thesis by (simp add: temp_name_from.simps [of t cs])
  next
    case False
    then show ?thesis by (simp add: temp_name_from.simps [of t cs])
  qed
qed

lemma temp_name_fresh: "temp_name cs \<notin> set cs"
  by (simp add: temp_name_def temp_name_from_fresh)

lemma rename_df_data [simp]: "columns_data (rename_df m d) = columns_data d"
  by (simp add: rename_df_def columns_data_def comp_def)

lemma rename_df_nrows [simp]: "nrows (rename_df m d) = nrows d"
  by (simp add: rename_df_def)

lemma rename_df_names: "names (rename_df m d) = map (rename_label m) (names d)"
  by (simp add: rename_df_def names_def comp_def)

text \<open>
  What the two renames do to a label, whatever the frame holds: the second rename undoes
  the first on the label \<open>column2\<close> in the single case where \<open>column1\<close> is the
  temporary name itself (then \<open>column1\<close> labels no column).
\<close>

lemma rename_twice_label:
  assumes "n \<noteq> tmp"
  shows "rename_label (Map.empty(tmp \<mapsto> b)) (rename_label (Map.empty(a \<mapsto> tmp, b \<mapsto> a)) n)
       = (if n = a then b else if n = b \<and> a \<noteq> tmp then a else n)"
  using assms by (auto simp: rename_label_def)

lemma rename_columns_general:
  assumes "df p = Some d" and "columns_to_rename p = (a, b) # rest"
  shows "\<exists>d'. rename_columns p = (Inr (), p\<lparr>df := Some d'\<rparr>)
            \<and> names d' = map (\<lambda>n. if n = a then b
                                    else if n = b \<and> a \<noteq> temp_name (names d) then a else n) (names d)
            \<and> columns_data d' = columns_data d \<and> nrows d' = nrows d"
proof -
  let ?tmp = "temp_name (names d)"
  let ?d1 = "rename_df (Map.empty(a \<mapsto> ?tmp, b \<mapsto> a)) d"
  let ?d2 = "rename_df (Map.empty(?tmp \<mapsto> b)) ?d1"
  have run: "rename_columns p = (Inr (), p\<lparr>df := Some ?d2\<rparr>)"
    using assms by (simp add: rename_columns_def Let_def)
  have "\<forall>n \<in> set (names d). n \<noteq> ?tmp"
    using temp_name_fresh [of "names d"] by auto
  then have nm: "names ?d2 = map (\<lambda>n. if n = a then b
                                    else if n = b \<and> a \<noteq> ?tmp then a else n) (names d)"
    by (simp add: rename_df_names rename_twice_label)
  have "columns_data ?d2 = columns_data d" and "nrows ?d2 = nrows d"
    by simp_all
  with run nm show ?thesis by blast
qed

lemma rename_columns_both_present:
  assumes "df p = Some d" and "columns_to_rename p = (a, b) # rest"
    and "a \<in> set (names d)" and "b \<in> set (names d)"
  shows "\<exists>d'. rename_columns p = (Inr (), p\<lparr>df := Some d'\<rparr>)
            \<and> names d' = map (swap_label a b) (names d)
            \<and> columns_data d' = columns_data d \<and> nrows d' = nrows d"
proof -
  let ?tmp = "temp_name (names d)"
  have "?tmp \<notin> set (names d)" by (rule temp_name_fresh)
  with assms(3) have ne: "a \<noteq> ?tmp" by auto
  obtain d' where run: "rename_columns p = (Inr (), p\<lparr>df := Some d'\<rparr>)"
    and nm: "names d' = map (\<lambda>n. if n = a then b else if n = b \<and> a \<noteq> ?tmp then a else n) (names d)"
    and rest: "columns_data d' = columns_data d" "nrows d' = nrows d"
    using rename_columns_general [OF assms(1,2)] by blast
  have "names d' = map (swap_label a b) (names d)"
    using nm ne by (simp add: swap_label_def)
  with run rest show ?thesis by blast
qed

lemma cols_eqI:
  "names d' = names d \<Longrightarrow> columns_data d' = columns_data d \<Longrightarrow> cols d' = cols d"
  unfolding names_def columns_data_def
  by (metis zip_map_fst_snd)

lemma swap_label_twice: "swap_label a b (swap_label a b n) = n"
  by (simp add: swap_label_def)

text \<open>
  C1. When the frame holds both columns of the configured pair (A, B), rename_columns
  returns normally and exchanges the two labels: the column that was labelled A is
  labelled B and the other way round, every other label stays, the data of every column
  stays at its position (so rows stay aligned), the row count stays, and the temporary
  label that the swap goes through is the label of no column, before or after.
\<close>

theorem rename_columns_swaps:
  assumes "df p = Some d" and "columns_to_rename p = (a, b) # rest"
    and "a \<in> set (names d)" and "b \<in> set (names d)"
  shows "\<exists>d'. rename_columns p = (Inr (), p\<lparr>df := Some d'\<rparr>)
            \<and> names d' = map (swap_label a b) (names d)
            \<and> columns_data d' = columns_data d \<and> nrows d' = nrows d
            \<and> temp_name (names d) \<notin> set (names d)
            \<and> temp_name (names d) \<notin> set (names d')"
proof -
  let ?tmp = "temp_name (names d)"
  have fresh: "?tmp \<notin> set (names d)" by (rule temp_name_fresh)
  obtain d' where run: "rename_columns p = (Inr (), p\<lparr>df := Some d'\<rparr>)"
    and nm: "names d' = map (swap_label a b) (names d)"
    and rest: "columns_data d' = columns_data d" "nrows d' = nrows d"
    using rename_columns_both_present [OF assms] by blast
  have "set (names d') \<subseteq> set (names d)"
    using assms(3,4) by (auto simp: nm swap_label_def)
  with fresh have "?tmp \<notin> set (names d')" by auto
  with run nm rest fresh show ?thesis by blast
qed

theorem rename_columns_swaps_witness:
  "df (survey_processor (Some plots_frame)) = Some plots_frame
   \<and> ''Field_ID'' \<in> set (names plots_frame) \<and> ''Plot_ID'' \<in> set (names plots_frame)
   \<and> (\<exists>d'. rename_columns (survey_processor (Some plots_frame))
               = (Inr (), (survey_processor (Some plots_frame))\<lparr>df := Some d'\<rparr>)
          \<and> names d' = [''Plot_ID'', ''Field_ID'', ''Elevation'']
          \<and> columns_data d' = columns_data plots_frame)"
proof -
  have h1: "df (survey_processor (Some plots_frame)) = Some plots_frame"
    by (simp add: survey_processor_def)
  have h2: "columns_to_rename (survey_processor (Some plots_frame)) = (''Field_ID'', ''Plot_ID'') # []"
    by (simp add: survey_processor_def)
  have h3: "''Field_ID'' \<in> set (names plots_frame)"
    and h4: "''Plot_ID'' \<in> set (names plots_frame)"
    by (simp_all add: names_def plots_frame_def)
  have nm: "map (swap_label ''Field_ID'' ''Plot_ID'') (names plots_frame)
            = [''Plot_ID'', ''Field_ID'', ''Elevation'']"
    by (simp add: names_def plots_frame_def swap_label_def)
  from rename_columns_swaps [OF h1 h2 h3 h4]
  obtain d' where "rename_columns (survey_processor (Some plots_frame))
               = (Inr (), (survey_processor (Some plots_frame))\<lparr>df := Some d'\<rparr>)"
    and "names d' = map (swap_label ''Field_ID'' ''Plot_ID'') (names plots_frame)"
    and "columns_data d' = columns_data plots_frame"
    by blast
  with nm have "\<exists>d'. rename_columns (survey_processor (Some plots_frame))
               = (Inr (), (survey_processor (Some plots_frame))\<lparr>df := Some d'\<rparr>)
          \<and> names d' = [''Plot_ID'', ''Field_ID'', ''Elevation'']
          \<and> columns_data d' = columns_data plots_frame"
    by metis
  with h1 h3 h4 show ?thesis by blast
qed

lemma swap_label_mem:
  "a \<in> set ns \<Longrightarrow> b \<in> set ns \<Longrightarrow> set (map (swap_label a b) ns) = set ns"
proof -
  assume a: "a \<in> set ns" and b: "b \<in> set ns"
  have "swap_label a b ` set ns \<subseteq> set ns"
    using a b by (auto simp: swap_label_def)
  moreover have "set ns \<subseteq> swap_label a b ` set ns"
  proof
    fix n assume "n \<in> set ns"
    then have "swap_label a b n \<in> set ns"
      using a b by (auto simp: swap_label_def)
    then have "swap_label a b (swap_label a b n) \<in> swap_label a b ` set ns"
      by (rule imageI)
    then show "n \<in> swap_label a b ` set ns"
      by (simp only: swap_label_twice)
  qed
  ultimately show ?thesis by auto
qed

lemma processor_df_same: "df p = Some d \<Longrightarrow> p\<lparr>df := Some d\<rparr> = (p::processor)"
  by simp

text \<open>
  C5. rename_columns is its own inverse on a frame that holds both columns of the pair:
  calling it twice returns normally both times and leaves the processor, and so the
  labels and the data of every column, exactly as they were.
\<close>

theorem rename_columns_involution:
  assumes "df p = Some d" and "columns_to_rename p = (a, b) # rest"
    and "a \<in> set (names d)" and "b \<in> set (names d)"
  shows "and_then (rename_columns p) (\<lambda>_ p'. rename_columns p') = (Inr (), p)"
proof -
  obtain d' where run1: "rename_columns p = (Inr (), p\<lparr>df := Some d'\<rparr>)"
    and nm1: "names d' = map (swap_label a b) (names d)"
    and dat1: "columns_data d' = columns_data d" and nr1: "nrows d' = nrows d"
    using rename_columns_both_present [OF assms] by blast
  let ?p' = "p\<lparr>df := Some d'\<rparr>"
  have same: "set (names d') = set (names d)"
    unfolding nm1 using assms(3,4) by (rule swap_label_mem)
  have a': "a \<in> set (names d')" and b': "b \<in> set (names d')"
    using assms(3,4) same by simp_all
  have h1: "df ?p' = Some d'" by simp
  have h2: "columns_to_rename ?p' = (a, b) # rest"
    using assms(2) by simp
  from rename_columns_both_present [OF h1 h2 a' b']
  obtain d'' where run2: "rename_columns ?p' = (Inr (), ?p'\<lparr>df := Some d''\<rparr>)"
    and nm2: "names d'' = map (swap_label a b) (names d')"
    and dat2: "columns_data d'' = columns_data d'" and nr2: "nrows d'' = nrows d'"
    by blast
  have "names d'' = map (swap_label a b \<circ> swap_label a b) (names d)"
    unfolding nm2 nm1 by simp
  also have "swap_label a b \<circ> swap_label a b = id"
    by (rule ext) (simp add: swap_label_twice)
  finally have "names d'' = names d" by simp
  moreover have "columns_data d'' = columns_data d"
    using dat1 dat2 by simp
  ultimately have "cols d'' = cols d" by (rule cols_eqI)
  moreover have "nrows d'' = nrows d" using nr1 nr2 by simp
  ultimately have "d'' = d" by simp
  then have "?p'\<lparr>df := Some d''\<rparr> = p" using assms(1) by simp
  then show ?thesis using run1 run2 by (simp add: and_then_def)
qed


theorem rename_columns_involution_witness:
  "df (survey_processor (Some plots_frame)) = Some plots_frame
   \<and> ''Field_ID'' \<in> set (names plots_frame) \<and> ''Plot_ID'' \<in> set (names plots_frame)
   \<and> and_then (rename_columns (survey_processor (Some plots_frame))) (\<lambda>_ p'. rename_columns p')
       = (Inr (), survey_processor (Some plots_frame))"
proof -
  have h1: "df (survey_processor (Some plots_frame)) = Some plots_frame"
    by (simp add: survey_processor_def)
  have h2: "columns_to_rename (survey_processor (Some plots_frame)) = (''Field_ID'', ''Plot_ID'') # []"
    by (simp add: survey_processor_def)
  have h3: "''Field_ID'' \<in> set (names plots_frame)"
    and h4: "''Plot_ID'' \<in> set (names plots_frame)"
    by (simp_all add: names_def plots_frame_def)
  from rename_columns_involution [OF h1 h2 h3 h4] h1 h3 h4 show ?thesis
    by blast
qed

text \<open>
  The claim that rename_columns fails when a column of the pair is absent does not hold:
  on a frame with the columns Field_ID and Elevation and the pair (Field_ID, Plot_ID) it
  returns normally and relabels Field_ID as Plot_ID.
\<close>

theorem rename_columns_absent_counterexample:
  "''Plot_ID'' \<notin> set (names fields_frame)
   \<and> fst (rename_columns (survey_processor (Some fields_frame))) = Inr ()
   \<and> map_option names (df (snd (rename_columns (survey_processor (Some fields_frame)))))
       = Some [''Plot_ID'', ''Elevation'']"
  by (simp add: rename_columns_def survey_processor_def fields_frame_def names_def temp_name_def
      temp_name_from.simps rename_df_def rename_label_def Let_def)

text \<open>
  C8, as the code has it. On a frame from which A or B is absent, rename_columns raises
  nothing and completes: the data of every column and the row count stay; a column
  labelled A is relabelled B; a column labelled B is relabelled A, unless A is the
  temporary label itself, in which case it keeps the label B; every other label stays;
  and when both A and B are absent the frame is unchanged.
\<close>

theorem rename_columns_absent:
  assumes "df p = Some d" and "columns_to_rename p = (a, b) # rest"
    and "a \<notin> set (names d) \<or> b \<notin> set (names d)"
  shows "\<exists>d'. rename_columns p = (Inr (), p\<lparr>df := Some d'\<rparr>)
            \<and> columns_data d' = columns_data d \<and> nrows d' = nrows d
            \<and> names d' = map (\<lambda>n. if n = a then b
                                    else if n = b \<and> a \<noteq> temp_name (names d) then a else n) (names d)
            \<and> (a \<notin> set (names d) \<and> b \<notin> set (names d) \<longrightarrow> d' = d)"
proof -
  let ?f = "\<lambda>n. if n = a then b else if n = b \<and> a \<noteq> temp_name (names d) then a else n"
  obtain d' where run: "rename_columns p = (Inr (), p\<lparr>df := Some d'\<rparr>)"
    and nm: "names d' = map ?f (names d)"
    and dat: "columns_data d' = columns_data d" and nr: "nrows d' = nrows d"
    using rename_columns_general [OF assms(1,2)] by blast
  have "d' = d" if "a \<notin> set (names d)" and "b \<notin> set (names d)"
  proof -
    have "map ?f (names d) = map (\<lambda>n. n) (names d)"
      using that by (intro map_cong) auto
    then have "names d' = names d" using nm by simp
    then have "cols d' = cols d" using dat by (rule cols_eqI)
    then show ?thesis using nr by simp
  qed
  with run nm dat nr show ?thesis by blast
qed

theorem rename_columns_absent_witness:
  "df (survey_processor (Some fields_frame)) = Some fields_frame
   \<and> ''Plot_ID'' \<notin> set (names fields_frame)
   \<and> (\<exists>d'. rename_columns (survey_processor (Some fields_frame))
               = (Inr (), (survey_processor (Some fields_frame))\<lparr>df := Some d'\<rparr>)
          \<and> columns_data d' = columns_data fields_frame
          \<and> names d' = [''Plot_ID'', ''Elevation''])"
proof -
  have h1: "df (survey_processor (Some fields_frame)) = Some fields_frame"
    by (simp add: survey_processor_def)
  have h2: "columns_to_rename (survey_processor (Some fields_frame)) = (''Field_ID'', ''Plot_ID'') # []"
    by (simp add: survey_processor_def)
  have h3: "''Field_ID'' \<notin> set (names fields_frame) \<or> ''Plot_ID'' \<notin> set (names fields_frame)"
    by (simp add: names_def fields_frame_def)
  have nm: "map (\<lambda>n. if n = ''Field_ID'' then ''Plot_ID''
                      else if n = ''Plot_ID'' \<and> ''Field_ID'' \<noteq> temp_name (names fields_frame)
                           then ''Field_ID'' else n) (names fields_frame)
            = [''Plot_ID'', ''Elevation'']"
    by (simp add: names_def fields_frame_def)
  from rename_columns_absent [OF h1 h2 h3]
  obtain d' where "rename_columns (survey_processor (Some fields_frame))
               = (Inr (), (survey_processor (Some fields_frame))\<lparr>df := Some d'\<rparr>)"
    and "columns_data d' = columns_data fields_frame"
    and "names d' = map (\<lambda>n. if n = ''Field_ID'' then ''Plot_ID''
                      else if n = ''Plot_ID'' \<and> ''Field_ID'' \<noteq> temp_name (names fields_frame)
                           then ''Field_ID'' else n) (names fields_frame)"
    by blast
  with nm have "\<exists>d'. rename_columns (survey_processor (Some fields_frame))
               = (Inr (), (survey_processor (Some fields_frame))\<lparr>df := Some d'\<rparr>)
          \<and> columns_data d' = columns_data fields_frame
          \<and> names d' = [''Plot_ID'', ''Elevation'']"
    by metis
  moreover have "''Plot_ID'' \<notin> set (names fields_frame)"
    by (simp add: names_def fields_frame_def)
  ultimately show ?thesis using h1 by blast
qed

section \<open>Properties of apply_corrections\<close>

lemma column_of_names: "column_of d c = Some v \<Longrightarrow> c \<in> set (names d)"
  unfolding column_of_def names_def
  by (metis map_of_SomeD image_eqI fst_conv set_map)

lemma column_of_absent: "c \<notin> set (names d) \<Longrightarrow> column_of d c = None"
  unfolding column_of_def names_def
  by (simp add: map_of_eq_None_iff)

lemma names_setitem: "c \<in> set (names d) \<Longrightarrow> names (setitem d c v) = names d"
  by (simp add: setitem_def names_def comp_def cong: map_cong)

lemma nrows_setitem [simp]: "nrows (setitem d c v) = nrows d"
  by (simp add: setitem_def)

lemma map_of_replace:
  "map_of (map (\<lambda>nc. if fst nc = c then (c, v) else nc) xs) c'
   = (if c' = c then (if c \<in> fst ` set xs then Some v else None) else map_of xs c')"
proof (induction xs)
  case Nil
  then show ?case by simp
next
  case (Cons x xs)
  then show ?case by (cases x) force
qed

lemma column_of_setitem:
  "c \<in> set (names d) \<Longrightarrow>
   column_of (setitem d c v) c' = (if c' = c then Some v else column_of d c')"
  using map_of_replace [of c v "cols d" c']
  by (simp add: setitem_def column_of_def names_def)

lemma getitem_Inr [simp]: "getitem d c = Inr v \<longleftrightarrow> column_of d c = Some v"
  by (simp add: getitem_def split: option.splits)

lemma getitem_Inl [simp]: "getitem d c = Inl e \<longleftrightarrow> column_of d c = None \<and> e = KeyError c"
  by (auto simp: getitem_def split: option.splits)


text \<open>
  C9. apply_corrections touches only the value column and the magnitude column: on a
  frame with distinct labels, whether it returns or raises, the processor it leaves
  differs from the one it started with at most in the frame; the labels and their order
  and the row count are the same, and every column under another label is the same.
\<close>

theorem apply_corrections_frame:
  assumes "df p = Some d" and "distinct (names d)"
  shows "\<exists>d'. snd (apply_corrections p column_name abs_column) = p\<lparr>df := Some d'\<rparr>
            \<and> names d' = names d \<and> nrows d' = nrows d
            \<and> (\<forall>c. c \<noteq> column_name \<and> c \<noteq> abs_column \<longrightarrow> column_of d' c = column_of d c)"
proof -
  let ?ok = "\<lambda>d'. names d' = names d \<and> nrows d' = nrows d
            \<and> (\<forall>c. c \<noteq> column_name \<and> c \<noteq> abs_column \<longrightarrow> column_of d' c = column_of d c)"
  let ?out = "snd (apply_corrections p column_name abs_column)"
  have fin: ?thesis if "?out = p\<lparr>df := Some e\<rparr>" and "?ok e" for e
    using that by blast
  have step: "?ok (setitem e c v)"
    if "?ok e" and "column_of e c = Some u" and "c = column_name \<or> c = abs_column" for e c v u
  proof -
    have "c \<in> set (names e)" using that(2) by (rule column_of_names)
    then show ?thesis using that(1,3) by (auto simp: names_setitem column_of_setitem)
  qed
  have base: "?ok d" by simp
  have same: "p = p\<lparr>df := Some d\<rparr>" using assms(1) by simp
  show ?thesis
  proof (cases "getitem d abs_column")
    case (Inl e)
    then have "?out = p" using assms(1) by (simp add: apply_corrections_def del: getitem_Inl)
    with same have "?out = p\<lparr>df := Some d\<rparr>" by simp
    then show ?thesis using base by (rule fin)
  next
    case (Inr a)
    show ?thesis
    proof (cases "series_abs a")
      case (Inl e)
      then have "?out = p" using assms(1) Inr
        by (simp add: apply_corrections_def del: getitem_Inr)
      with same have "?out = p\<lparr>df := Some d\<rparr>" by simp
      then show ?thesis using base by (rule fin)
    next
      case abs_ok: (Inr a')
      let ?d1 = "setitem d abs_column a'"
      have ok1: "?ok ?d1" using Inr by (intro step [OF base]) auto
      show ?thesis
      proof (cases "getitem ?d1 column_name")
        case (Inl e)
        then have "?out = p\<lparr>df := Some ?d1\<rparr>" using assms(1) Inr abs_ok
          by (simp add: apply_corrections_def Let_def del: getitem_Inr getitem_Inl)
        then show ?thesis using ok1 by (rule fin)
      next
        case get1: (Inr v)
        let ?d2 = "setitem ?d1 column_name (series_apply_get (values_to_rename p) v)"
        have ok2: "?ok ?d2" using get1 by (intro step [OF ok1]) auto
        have in1: "column_name \<in> set (names ?d1)" using get1 by (auto dest: column_of_names)
        have get2: "getitem ?d2 column_name = Inr (series_apply_get (values_to_rename p) v)"
          by (simp add: column_of_setitem [OF in1])
        show ?thesis
        proof (cases "str_strip (series_apply_get (values_to_rename p) v)")
          case (Inl e)
          then have "?out = p\<lparr>df := Some ?d2\<rparr>" using assms(1) Inr abs_ok get1 get2
            by (simp add: apply_corrections_def Let_def del: getitem_Inr getitem_Inl)
          then show ?thesis using ok2 by (rule fin)
        next
          case strip_ok: (Inr v'')
          have ok3: "?ok (setitem ?d2 column_name v'')"
            using get2 by (intro step [OF ok2]) auto
          have "?out = p\<lparr>df := Some (setitem ?d2 column_name v'')\<rparr>"
            using assms(1) Inr abs_ok get1 get2 strip_ok
            by (simp add: apply_corrections_def Let_def del: getitem_Inr getitem_Inl)
          then show ?thesis using ok3 by (rule fin)
        qed
      qed
    qed
  qed
qed


theorem apply_corrections_frame_witness:
  "df (survey_processor (Some crops_frame)) = Some crops_frame
   \<and> distinct (names crops_frame)
   \<and> (\<exists>d'. snd (apply_corrections (survey_processor (Some crops_frame)) ''Crop_type'' ''Elevation'')
               = (survey_processor (Some crops_frame))\<lparr>df := Some d'\<rparr>
          \<and> names d' = [''Field_ID'', ''Elevation'', ''Crop_type'']
          \<and> nrows d' = 3
          \<and> column_of d' ''Field_ID'' = Some (NumCol [Some 1, Some 2, Some 3]))"
proof -
  let ?p = "survey_processor (Some crops_frame)"
  have h1: "df ?p = Some crops_frame" by (simp add: survey_processor_def)
  have h2: "distinct (names crops_frame)" by (simp add: names_def crops_frame_def)
  have n: "names crops_frame = [''Field_ID'', ''Elevation'', ''Crop_type'']"
    and r: "nrows crops_frame = 3"
    and c: "column_of crops_frame ''Field_ID'' = Some (NumCol [Some 1, Some 2, Some 3])"
    by (simp_all add: names_def column_of_def crops_frame_def)
  from apply_corrections_frame [OF h1 h2, of "''Crop_type''" "''Elevation''"]
  obtain d' where out: "snd (apply_corrections ?p ''Crop_type'' ''Elevation'') = ?p\<lparr>df := Some d'\<rparr>"
    and nm: "names d' = names crops_frame" and nr: "nrows d' = nrows crops_frame"
    and fr: "\<forall>c. c \<noteq> ''Crop_type'' \<and> c \<noteq> ''Elevation'' \<longrightarrow> column_of d' c = column_of crops_frame c"
    by blast
  have "column_of d' ''Field_ID'' = column_of crops_frame ''Field_ID''"
    using fr by simp
  with out nm nr n r c
  have "\<exists>d'. snd (apply_corrections ?p ''Crop_type'' ''Elevation'') = ?p\<lparr>df := Some d'\<rparr>
          \<and> names d' = [''Field_ID'', ''Elevation'', ''Crop_type'']
          \<and> nrows d' = 3
          \<and> column_of d' ''Field_ID'' = Some (NumCol [Some 1, Some 2, Some 3])"
    by metis
  with h1 h2 show ?thesis by blast
qed

text \<open>
  The scenario of C3 on the code: the row holds the crop type \<^verbatim>\<open>" cassaval "\<close>, the table
  maps \<^verbatim>\<open>"cassaval"\<close> to \<^verbatim>\<open>"cassava"\<close>. The lookup comes before the strip, the padded
  string is no key of the table, and so the crop type does not come out as \<^verbatim>\<open>"cassava"\<close>.
\<close>

theorem apply_corrections_scenario_counterexample:
  "column_of cassava_row ''Crop_type'' = Some (StrCol [Some '' cassaval ''])
   \<and> values_to_rename (survey_processor (Some cassava_row)) ''cassaval'' = Some ''cassava''
   \<and> fst (apply_corrections (survey_processor (Some cassava_row)) ''Crop_type'' ''Elevation'') = Inr ()
   \<and> map_option (\<lambda>d. column_of d ''Crop_type'')
        (df (snd (apply_corrections (survey_processor (Some cassava_row)) ''Crop_type'' ''Elevation'')))
      \<noteq> Some (Some (StrCol [Some ''cassava'']))"
  by (simp add: apply_corrections_def survey_processor_def cassava_row_def getitem_def setitem_def
      column_of_def names_def dict_get_def strip_def isspace_def Let_def)

text \<open>
  C3, as the code has it. On that row the correction step returns normally and leaves
  the elevation 430 and the crop type \<^verbatim>\<open>"cassaval"\<close>: the padded value misses the table
  and is only stripped. The field identifier and the row count are untouched.
\<close>

theorem apply_corrections_scenario:
  "fst (apply_corrections (survey_processor (Some cassava_row)) ''Crop_type'' ''Elevation'') = Inr ()
   \<and> map_option (\<lambda>d. (cols d, nrows d))
        (df (snd (apply_corrections (survey_processor (Some cassava_row)) ''Crop_type'' ''Elevation'')))
      = Some ([(''Field_ID'', NumCol [Some 1]),
               (''Elevation'', NumCol [Some 430]),
               (''Crop_type'', StrCol [Some ''cassaval''])], 1)"
  by (simp add: apply_corrections_def survey_processor_def cassava_row_def getitem_def setitem_def
      column_of_def names_def dict_get_def strip_def isspace_def Let_def)

section \<open>Properties of ingestion and of process\<close>

lemma query_data_nonempty: "query_data w eng q = Inr d \<Longrightarrow> \<not> empty_df d"
  by (auto simp: query_data_def split: sum.splits if_splits)

lemma query_data_empty:
  "read_sql_query w eng q = Inr d \<Longrightarrow> nrows d = 0 \<Longrightarrow> query_data w eng q = Inl ValueError"
  by (simp add: query_data_def empty_df_def)

lemma load_data_empty:
  "read_sql_query w eng (sql_query p) = Inr d \<Longrightarrow> nrows d = 0 \<Longrightarrow>
   load_data w eng p = (Inl ValueError, p)"
  by (simp add: load_data_def query_data_empty)

lemma load_data_Inr:
  "fst (load_data w eng p) = Inr d \<Longrightarrow> \<not> empty_df d \<and> df (snd (load_data w eng p)) = Some d"
  by (auto simp: load_data_def dest: query_data_nonempty split: sum.splits)

lemma and_then_Inl: "fst r = Inl e \<Longrightarrow> and_then r f = r"
  by (cases r) (simp add: and_then_def)

text \<open>
  C4. When the connection is there (or can be made) and the query comes back with zero
  rows, ingest_sql_data raises ValueError, the error query_data raises for an empty
  result, and leaves the frame of the processor as it was; process then stops with the
  same error and the same frame. Whenever ingest_sql_data returns a frame, that frame is
  not empty and is the one stored in the processor. A fresh processor holds no frame, so
  after such a failed ingestion it still holds none.
\<close>

theorem ingest_rejects_empty_result:
  "((engine p = Some eng \<or> engine p = None \<and> create_db_engine w (db_path p) = Inr eng)
      \<and> read_sql_query w eng (sql_query p) = Inr d \<and> nrows d = 0
    \<longrightarrow> fst (ingest_sql_data w p) = Inl ValueError \<and> df (snd (ingest_sql_data w p)) = df p
        \<and> fst (process w p) = Inl ValueError \<and> df (snd (process w p)) = df p)
   \<and> (fst (ingest_sql_data w p) = Inr d'
    \<longrightarrow> 0 < nrows d' \<and> \<not> empty_df d' \<and> df (snd (ingest_sql_data w p)) = Some d')
   \<and> df (init_processor cfg) = None"
proof (intro conjI impI)
  assume a: "(engine p = Some eng \<or> engine p = None \<and> create_db_engine w (db_path p) = Inr eng)
      \<and> read_sql_query w eng (sql_query p) = Inr d \<and> nrows d = 0"
  then have q: "read_sql_query w eng (sql_query p) = Inr d" and z: "nrows d = 0" by simp_all
  have "\<exists>p'. ingest_sql_data w p = (Inl ValueError, p') \<and> df p' = df p"
  proof (cases "engine p")
    case None
    with a have c: "create_db_engine w (db_path p) = Inr eng" by simp
    have "load_data w eng (p\<lparr>engine := Some eng\<rparr>) = (Inl ValueError, p\<lparr>engine := Some eng\<rparr>)"
      using q z by (intro load_data_empty) simp_all
    then show ?thesis using None c by (simp add: ingest_sql_data_def)
  next
    case (Some e)
    with a have "e = eng" by simp
    then show ?thesis using Some load_data_empty [OF q z] by (simp add: ingest_sql_data_def)
  qed
  then obtain p' where i: "ingest_sql_data w p = (Inl ValueError, p')" and u: "df p' = df p"
    by blast
  show "fst (ingest_sql_data w p) = Inl ValueError" using i by simp
  show "df (snd (ingest_sql_data w p)) = df p" using i u by simp
  have "process w p = (Inl ValueError, p')"
    using i by (simp add: process_def process_steps_def and_then_def)
  then show "fst (process w p) = Inl ValueError" and "df (snd (process w p)) = df p"
    using u by simp_all
next
  assume r: "fst (ingest_sql_data w p) = Inr d'"
  have "\<not> empty_df d' \<and> df (snd (ingest_sql_data w p)) = Some d'"
    using r load_data_Inr
    by (auto simp: ingest_sql_data_def split: option.splits sum.splits)
  then show "0 < nrows d'" and "\<not> empty_df d'" and "df (snd (ingest_sql_data w p)) = Some d'"
    by (simp_all add: empty_df_def)
next
  show "df (init_processor cfg) = None" by (simp add: init_processor_def)
qed

theorem ingest_rejects_empty_result_witness:
  "engine (init_processor survey_config) = None
   \<and> create_db_engine (survey_world no_rows_frame station_frame) (db_path (init_processor survey_config))
       = Inr (Engine ''sqlite:///survey.db'')
   \<and> read_sql_query (survey_world no_rows_frame station_frame) (Engine ''sqlite:///survey.db'')
        (sql_query (init_processor survey_config)) = Inr no_rows_frame
   \<and> nrows no_rows_frame = 0
   \<and> fst (ingest_sql_data (survey_world no_rows_frame station_frame) (init_processor survey_config))
       = Inl ValueError
   \<and> df (snd (ingest_sql_data (survey_world no_rows_frame station_frame) (init_processor survey_config)))
       = None
   \<and> fst (process (survey_world no_rows_frame station_frame) (init_processor survey_config))
       = Inl ValueError
   \<and> df (snd (process (survey_world no_rows_frame station_frame) (init_processor survey_config)))
       = None"
proof -
  let ?w = "survey_world no_rows_frame station_frame"
  let ?p = "init_processor survey_config"
  let ?e = "Engine ''sqlite:///survey.db''"
  have h1: "engine ?p = None" by (simp add: init_processor_def)
  have h2: "create_db_engine ?w (db_path ?p) = Inr ?e"
    by (simp add: create_db_engine_def survey_world_def init_processor_def survey_config_def)
  have h3: "read_sql_query ?w ?e (sql_query ?p) = Inr no_rows_frame"
    by (simp add: survey_world_def)
  have h4: "nrows no_rows_frame = 0" by (simp add: no_rows_frame_def)
  have h5: "df ?p = None" by (simp add: init_processor_def)
  from ingest_rejects_empty_result [of ?p ?e ?w no_rows_frame] h1 h2 h3 h4 h5
  show ?thesis by simp
qed

lemma weather_station_mapping_Inr:
  "fst (weather_station_mapping w p) = Inr d \<Longrightarrow> df (snd (weather_station_mapping w p)) = Some d"
  by (auto simp: weather_station_mapping_def split: option.splits sum.splits)

lemma and_then_returns_frame:
  assumes "\<And>x q d. fst (f x q) = Inr d \<Longrightarrow> df (snd (f x q)) = Some d"
    and "fst (and_then r f) = Inr d"
  shows "df (snd (and_then r f)) = Some d"
proof (cases r)
  case (Pair res q)
  show ?thesis
  proof (cases res)
    case (Inl e)
    with Pair assms(2) show ?thesis by (simp add: and_then_def)
  next
    case (Inr x)
    with Pair have "and_then r f = f x q" by (simp add: and_then_def)
    with assms show ?thesis by simp
  qed
qed

lemma process_steps_Inr:
  "fst (process_steps w p) = Inr d \<Longrightarrow> df (snd (process_steps w p)) = Some d"
  unfolding process_steps_def
  by (intro and_then_returns_frame weather_station_mapping_Inr)

lemma names_drop:
  "names (d\<lparr>cols := filter (\<lambda>nc. fst nc \<noteq> c) (cols d)\<rparr>) = filter (\<lambda>n. n \<noteq> c) (names d)"
  by (simp add: names_def filter_map comp_def)

text \<open>
  C10. Once the four steps up to the join have returned the joined frame, process drops
  the label \<^verbatim>\<open>Unnamed: 0\<close> without asking whether it is there: if the joined frame has
  it, process returns normally and the final frame is the joined one without that label
  (same rows, every other label in order); if it does not, process raises KeyError and
  returns nothing.
\<close>

theorem process_drops_artifact:
  assumes "fst (process_steps w p) = Inr d"
  shows "(''Unnamed: 0'' \<in> set (names d) \<longrightarrow>
            (\<exists>d'. process w p = (Inr (), (snd (process_steps w p))\<lparr>df := Some d'\<rparr>)
                  \<and> ''Unnamed: 0'' \<notin> set (names d')
                  \<and> names d' = filter (\<lambda>n. n \<noteq> ''Unnamed: 0'') (names d)
                  \<and> nrows d' = nrows d))
       \<and> (''Unnamed: 0'' \<notin> set (names d) \<longrightarrow>
            process w p = (Inl (KeyError ''Unnamed: 0''), snd (process_steps w p)))"
proof -
  let ?p4 = "snd (process_steps w p)"
  let ?d' = "d\<lparr>cols := filter (\<lambda>nc. fst nc \<noteq> ''Unnamed: 0'') (cols d)\<rparr>"
  have st: "process_steps w p = (Inr d, ?p4)" using assms by (cases "process_steps w p") simp
  have dfp: "df ?p4 = Some d" using assms by (rule process_steps_Inr)
  have run: "process w p = drop_artifact ?p4"
    unfolding process_def by (subst st) (simp add: and_then_def)
  have yes: "drop_artifact ?p4 = (Inr (), ?p4\<lparr>df := Some ?d'\<rparr>)" if "''Unnamed: 0'' \<in> set (names d)"
    using that dfp by (simp add: drop_artifact_def drop_columns_def)
  have no: "drop_artifact ?p4 = (Inl (KeyError ''Unnamed: 0''), ?p4)" if "''Unnamed: 0'' \<notin> set (names d)"
    using that dfp by (simp add: drop_artifact_def drop_columns_def)
  have nm: "names ?d' = filter (\<lambda>n. n \<noteq> ''Unnamed: 0'') (names d)" by (rule names_drop)
  then have gone: "''Unnamed: 0'' \<notin> set (names ?d')" by simp
  have nr: "nrows ?d' = nrows d" by simp
  show ?thesis using run yes no nm gone nr by metis
qed

theorem process_drops_artifact_witness:
  "fst (process_steps (survey_world yield_frame station_frame) (init_processor survey_config))
     = Inr joined_frame
   \<and> ''Unnamed: 0'' \<in> set (names joined_frame)
   \<and> fst (process (survey_world yield_frame station_frame) (init_processor survey_config)) = Inr ()
   \<and> map_option names
        (df (snd (process (survey_world yield_frame station_frame) (init_processor survey_config))))
       = Some [''Field_ID'', ''Elevation'', ''Crop_type'', ''Annual_yield'', ''Weather_station'']
   \<and> fst (process_steps (survey_world yield_frame station_frame_plain) (init_processor survey_config))
       = Inr joined_frame_plain
   \<and> ''Unnamed: 0'' \<notin> set (names joined_frame_plain)
   \<and> fst (process (survey_world yield_frame station_frame_plain) (init_processor survey_config))
       = Inl (KeyError ''Unnamed: 0'')"
proof -
  let ?p = "init_processor survey_config"
  let ?w = "survey_world yield_frame station_frame"
  let ?w' = "survey_world yield_frame station_frame_plain"
  have h1: "fst (process_steps ?w ?p) = Inr joined_frame" by code_simp
  have m1: "''Unnamed: 0'' \<in> set (names joined_frame)"
    by (simp add: names_def joined_frame_def)
  have f1: "filter (\<lambda>n. n \<noteq> ''Unnamed: 0'') (names joined_frame)
            = [''Field_ID'', ''Elevation'', ''Crop_type'', ''Annual_yield'', ''Weather_station'']"
    by (simp add: names_def joined_frame_def)
  have h2: "fst (process_steps ?w' ?p) = Inr joined_frame_plain" by code_simp
  have m2: "''Unnamed: 0'' \<notin> set (names joined_frame_plain)"
    by (simp add: names_def joined_frame_plain_def)
  from process_drops_artifact [OF h1] m1 f1
  obtain d' where "process ?w ?p = (Inr (), (snd (process_steps ?w ?p))\<lparr>df := Some d'\<rparr>)"
    and "names d' = [''Field_ID'', ''Elevation'', ''Crop_type'', ''Annual_yield'', ''Weather_station'']"
    by auto
  then have r1: "fst (process ?w ?p) = Inr ()"
    and r2: "map_option names (df (snd (process ?w ?p)))
             = Some [''Field_ID'', ''Elevation'', ''Crop_type'', ''Annual_yield'', ''Weather_station'']"
    by simp_all
  from process_drops_artifact [OF h2] m2
  have r3: "fst (process ?w' ?p) = Inl (KeyError ''Unnamed: 0'')" by simp
  from h1 m1 r1 r2 h2 m2 r3 show ?thesis by blast
qed

section \<open>Properties of weather_station_mapping\<close>













end
